theory Spec2Isabelle
  imports Complex_Main
begin

section \<open>Python values used by the command\<close>

text \<open>
  The command \<^verbatim>\<open>chat_app_terminal.py\<close> is a Django management command around the
  ChatterBot library. Its own code builds the keyword arguments of the \<^verbatim>\<open>ChatBot\<close>
  constructor, calls the trainer inside a \<^verbatim>\<open>try\<close>, and runs a read-eval-print loop.
  The library calls and the terminal are outside the file: they are parameters of the
  model (a record of functions), and every call may return or raise.

  A Python \<^verbatim>\<open>str\<close> is modelled as a \<^typ>\<open>string\<close>; a character stands for the code
  point of the same number (0 to 255).
\<close>

subsection \<open>Exceptions\<close>

text \<open>
  The classes the source names in its handlers, and the rest of Python's hierarchy as
  far as the handlers can tell it apart: \<^verbatim>\<open>EOFError\<close> derives from \<^verbatim>\<open>Exception\<close>;
  \<^verbatim>\<open>KeyboardInterrupt\<close>, \<^verbatim>\<open>SystemExit\<close> and \<^verbatim>\<open>GeneratorExit\<close> derive from
  \<^verbatim>\<open>BaseException\<close> only. \<open>OtherException n\<close> is any other class \<open>n\<close> below
  \<^verbatim>\<open>Exception\<close> (\<^verbatim>\<open>ValueError\<close>, \<^verbatim>\<open>OSError\<close>, ...), \<open>OtherBaseException n\<close> any other
  class below \<^verbatim>\<open>BaseException\<close> that is not below \<^verbatim>\<open>Exception\<close>. A subclass of one of
  the four named classes counts as that class, as it does for an \<^verbatim>\<open>except\<close> clause.
\<close>

datatype exc_class =
    EOFError
  | KeyboardInterrupt
  | SystemExit
  | GeneratorExit
  | OtherException string
  | OtherBaseException string

text \<open>
  An exception object: its class, and what \<^verbatim>\<open>str(exc)\<close> does, which is what an
  f-string \<^verbatim>\<open>{exc}\<close> evaluates: \<^verbatim>\<open>__str__\<close> returns the text (\<open>Inr\<close>) or raises an
  exception of its own (\<open>Inl\<close>).
\<close>

datatype py_exception =
  PyException (exc_class: exc_class) (exc_str: "py_exception + string")

text \<open>\<^verbatim>\<open>isinstance(exc, Exception)\<close>: what \<^verbatim>\<open>except Exception\<close> catches.\<close>

fun is_Exception :: "exc_class \<Rightarrow> bool" where
  "is_Exception EOFError = True"
| "is_Exception KeyboardInterrupt = False"
| "is_Exception SystemExit = False"
| "is_Exception GeneratorExit = False"
| "is_Exception (OtherException n) = True"
| "is_Exception (OtherBaseException n) = False"

text \<open>What \<^verbatim>\<open>except (EOFError, KeyboardInterrupt)\<close> catches.\<close>

fun is_EOF_or_Interrupt :: "exc_class \<Rightarrow> bool" where
  "is_EOF_or_Interrupt EOFError = True"
| "is_EOF_or_Interrupt KeyboardInterrupt = True"
| "is_EOF_or_Interrupt SystemExit = False"
| "is_EOF_or_Interrupt GeneratorExit = False"
| "is_EOF_or_Interrupt (OtherException n) = False"
| "is_EOF_or_Interrupt (OtherBaseException n) = False"

subsection \<open>The string methods the loop calls\<close>

text \<open>
  \<^verbatim>\<open>str.isspace\<close> on one character, for the code points below 256: the ASCII
  controls 9 to 13 and 28 to 31, the space, NEL (133) and the no-break space (160).
\<close>

definition py_isspace :: "char \<Rightarrow> bool" where
  "py_isspace c =
     (let n = (of_char c :: nat)
      in (9 \<le> n \<and> n \<le> 13) \<or> (28 \<le> n \<and> n \<le> 32) \<or> n = 133 \<or> n = 160)"

text \<open>\<^verbatim>\<open>s.strip()\<close>: whitespace removed at both ends.\<close>

definition strip :: "string \<Rightarrow> string" where
  "strip s = rev (dropWhile py_isspace (rev (dropWhile py_isspace s)))"

text \<open>
  \<^verbatim>\<open>str.lower\<close> on one character, for the code points below 256: A to Z and the
  Latin-1 capitals 192 to 222 (but the multiplication sign, 215) move up by 32.
\<close>

definition lower_char :: "char \<Rightarrow> char" where
  "lower_char c =
     (let n = (of_char c :: nat)
      in if (65 \<le> n \<and> n \<le> 90) \<or> (192 \<le> n \<and> n \<le> 222 \<and> n \<noteq> 215)
         then char_of (n + 32) else c)"

definition lower :: "string \<Rightarrow> string" where
  "lower s = map lower_char s"

section \<open>The configuration handed to the engine\<close>

text \<open>One entry of \<^verbatim>\<open>logic_adapters\<close>: the dict literal of the source.\<close>

record logic_adapter =
  import_path :: string
  default_response :: string
  maximum_similarity_threshold :: real

text \<open>The positional name and the keyword arguments of the \<^verbatim>\<open>ChatBot(...)\<close> call.\<close>

record chatbot_kwargs =
  bot_name :: string
  storage_adapter :: string
  database_uri :: string
  logic_adapters :: "logic_adapter list"
  preprocessors :: "string list"
  read_only :: bool

definition chatbot_kwargs :: "bool \<Rightarrow> chatbot_kwargs" where
  "chatbot_kwargs ro =
     \<lparr> bot_name = ''TerminalBot'',
       storage_adapter = ''chatterbot.storage.SQLStorageAdapter'',
       database_uri = ''sqlite:///chatterbot.sqlite3'',
       logic_adapters =
         [\<lparr> import_path = ''chatterbot.logic.BestMatch'',
            default_response = ''I'' @ [CHR 0x27] @ ''m not sure I understand. Can you rephrase?'',
            maximum_similarity_threshold = 0.80 \<rparr>],
       preprocessors = [''chatterbot.preprocessors.clean_whitespace''],
       read_only = ro \<rparr>"

section \<open>The engine and the terminal\<close>

text \<open>
  The ChatterBot library is not part of the repository. Its four entry points the
  command calls are the fields of a record; each takes the arguments the source passes
  and either returns (\<open>Inr\<close>) or raises (\<open>Inl\<close>). \<open>'bot\<close> is the whole state behind the
  agent handle (its store included), so a call that learns or trains returns the new
  state, also when it raises. \<open>get_response\<close> returns \<^verbatim>\<open>str(response)\<close>, the text the
  f-string of the loop prints: the call and the formatting of its result stand in the
  same \<^verbatim>\<open>try\<close>, so for the loop an exception of either is an exception of the dispatch.
\<close>

record ('bot, 'trainer) engine =
  ChatBot :: "chatbot_kwargs \<Rightarrow> py_exception + 'bot"
  ChatterBotCorpusTrainer :: "'bot \<Rightarrow> py_exception + 'trainer"
  train :: "'trainer \<Rightarrow> string \<Rightarrow> 'bot \<Rightarrow> (py_exception + unit) \<times> 'bot"
  get_response :: "'bot \<Rightarrow> string \<Rightarrow> (py_exception + string) \<times> 'bot"

text \<open>
  What the run does to the outside, in order: \<^verbatim>\<open>self.stdout.write(self.style.X(msg))\<close>,
  the prompt of \<^verbatim>\<open>input\<close>, the text a \<^verbatim>\<open>print\<close> writes, and the two calls into the
  agent. Writing to the terminal is taken to succeed.
\<close>

datatype style = NOTICE | WARNING | SUCCESS

datatype event =
    StdoutWrite style string
  | Prompt string
  | Stdout string
  | GetResponse string
  | Train string

text \<open>\<^verbatim>\<open>print(s)\<close> writes \<open>s\<close> and a newline; \<^verbatim>\<open>print()\<close> is \<open>py_print []\<close>.\<close>

definition py_print :: "string \<Rightarrow> event" where
  "py_print s = Stdout (s @ [CHR 0x0A])"

text \<open>The strings passed to \<^verbatim>\<open>chatbot.get_response\<close>, in call order.\<close>

fun dispatched :: "event list \<Rightarrow> string list" where
  "dispatched [] = []"
| "dispatched (GetResponse t # es) = t # dispatched es"
| "dispatched (e # es) = dispatched es"

section \<open>The command\<close>

subsection \<open>\<^verbatim>\<open>_build_chatbot\<close>\<close>

definition build_chatbot :: "('bot, 'trainer) engine \<Rightarrow> bool \<Rightarrow> py_exception + 'bot" where
  "build_chatbot E ro = ChatBot E (chatbot_kwargs ro)"

subsection \<open>\<^verbatim>\<open>_train_if_needed\<close>\<close>

definition corpus :: string where
  "corpus = ''chatterbot.corpus.english''"

text \<open>
  The notice, the trainer's construction (outside the \<^verbatim>\<open>try\<close>), then the training call
  under \<^verbatim>\<open>except Exception\<close>. The handler formats \<^verbatim>\<open>{exc}\<close> for its first warning with
  no \<^verbatim>\<open>try\<close> around it, so an exception raised by \<^verbatim>\<open>str(exc)\<close> leaves the method. The
  result is \<open>Inr ()\<close> when the method returns and \<open>Inl exc\<close> when \<open>exc\<close> leaves it.
\<close>

definition train_if_needed ::
  "('bot, 'trainer) engine \<Rightarrow> 'bot \<Rightarrow> event list \<Rightarrow> (py_exception + unit) \<times> 'bot \<times> event list" where
  "train_if_needed E chatbot tr =
     (let tr1 = tr @ [StdoutWrite NOTICE
                        ''Preparing and training the bot (first run may take a while)...'']
      in case ChatterBotCorpusTrainer E chatbot of
           Inl exc \<Rightarrow> (Inl exc, chatbot, tr1)
         | Inr trainer \<Rightarrow>
             (case train E trainer corpus chatbot of
                (Inr u, chatbot') \<Rightarrow> (Inr (), chatbot', tr1 @ [Train corpus])
              | (Inl exc, chatbot') \<Rightarrow>
                  if is_Exception (exc_class exc)
                  then (case exc_str exc of
                          Inr text \<Rightarrow>
                            (Inr (), chatbot',
                             tr1 @ [Train corpus,
                                    StdoutWrite WARNING (''Training warning: '' @ text),
                                    StdoutWrite WARNING
                                      ''Continuing; the bot may have limited knowledge this run.''])
                        | Inl exc' \<Rightarrow> (Inl exc', chatbot', tr1 @ [Train corpus]))
                  else (Inl exc, chatbot', tr1 @ [Train corpus])))"

subsection \<open>\<^verbatim>\<open>_chat_loop\<close>\<close>

text \<open>
  Where control is after an iteration of \<^verbatim>\<open>while True\<close>: back at the top, about to
  call \<^verbatim>\<open>input\<close> (\<open>WAITING_FOR_INPUT\<close>); past a \<^verbatim>\<open>break\<close> (\<open>TERMINATED\<close>); or
  leaving the method with an exception no handler caught (\<open>RAISED\<close>).
\<close>

datatype control = WAITING_FOR_INPUT | TERMINATED | RAISED py_exception

definition sentinels :: "string set" where
  "sentinels = {''exit'', ''quit''}"

text \<open>
  One iteration. The argument \<open>inp\<close> is what \<^verbatim>\<open>input('You: ')\<close> does this time: it
  returns a line or raises. The \<^verbatim>\<open>except Exception\<close> handler of the dispatch formats
  \<^verbatim>\<open>{exc}\<close> itself, unprotected: an exception raised by \<^verbatim>\<open>str(exc)\<close> leaves the loop.
\<close>

fun chat_turn ::
  "('bot, 'trainer) engine \<Rightarrow> py_exception + string \<Rightarrow> 'bot \<times> event list
     \<Rightarrow> control \<times> 'bot \<times> event list" where
  "chat_turn E inp (chatbot, tr) =
     (let tr1 = tr @ [Prompt ''You: '']
      in case inp of
           Inl exc \<Rightarrow>
             if is_EOF_or_Interrupt (exc_class exc)
             then (TERMINATED, chatbot, tr1 @ [py_print []])
             else (RAISED exc, chatbot, tr1)
         | Inr line \<Rightarrow>
             let user_text = strip line
             in if lower user_text \<in> sentinels
                then (TERMINATED, chatbot, tr1 @ [py_print ''Bot: Goodbye!''])
                else if user_text = []
                then (WAITING_FOR_INPUT, chatbot, tr1)
                else (case get_response E chatbot user_text of
                        (Inr response, chatbot') \<Rightarrow>
                          (WAITING_FOR_INPUT, chatbot',
                           tr1 @ [GetResponse user_text, py_print (''Bot: '' @ response)])
                      | (Inl exc, chatbot') \<Rightarrow>
                          if is_Exception (exc_class exc)
                          then (case exc_str exc of
                                  Inr text \<Rightarrow>
                                    (WAITING_FOR_INPUT, chatbot',
                                     tr1 @ [GetResponse user_text,
                                            py_print (''Bot: Sorry, I ran into a problem: ''
                                                      @ text)])
                                | Inl exc' \<Rightarrow>
                                    (RAISED exc', chatbot', tr1 @ [GetResponse user_text]))
                          else (RAISED exc, chatbot', tr1 @ [GetResponse user_text])))"

text \<open>
  The \<^verbatim>\<open>while True\<close> loop over the successive outcomes of \<^verbatim>\<open>input\<close>. Each iteration
  calls \<^verbatim>\<open>input\<close> once, so the list is the loop's whole future; when it is used up the
  loop is blocked in \<^verbatim>\<open>input\<close>, which is \<open>WAITING_FOR_INPUT\<close>.
\<close>

fun chat_loop_from ::
  "('bot, 'trainer) engine \<Rightarrow> (py_exception + string) list \<Rightarrow> 'bot \<times> event list
     \<Rightarrow> control \<times> 'bot \<times> event list" where
  "chat_loop_from E [] s = (WAITING_FOR_INPUT, s)"
| "chat_loop_from E (inp # inps) s =
     (case chat_turn E inp s of
        (WAITING_FOR_INPUT, s') \<Rightarrow> chat_loop_from E inps s'
      | (TERMINATED, s') \<Rightarrow> (TERMINATED, s')
      | (RAISED exc, s') \<Rightarrow> (RAISED exc, s'))"

definition chat_loop ::
  "('bot, 'trainer) engine \<Rightarrow> (py_exception + string) list \<Rightarrow> 'bot \<Rightarrow> event list
     \<Rightarrow> control \<times> 'bot \<times> event list" where
  "chat_loop E inps chatbot tr =
     chat_loop_from E inps
       (chatbot, tr @ [StdoutWrite SUCCESS
                         (''Bot is ready. Type your message, or type '' @ [CHR 0x22]
                          @ ''exit'' @ [CHR 0x22] @ '' to quit.'')])"

subsection \<open>\<^verbatim>\<open>handle\<close>\<close>

text \<open>\<^verbatim>\<open>options.get('read_only', False)\<close> on the options dict Django passes.\<close>

definition get_read_only :: "(string \<rightharpoonup> bool) \<Rightarrow> bool" where
  "get_read_only options = (case options ''read_only'' of None \<Rightarrow> False | Some b \<Rightarrow> b)"

text \<open>
  Build, train, chat, with no handler of its own: an exception that leaves a helper
  leaves \<open>handle\<close>. The agent is \<open>None\<close> when the constructor raised.
\<close>

definition handle ::
  "('bot, 'trainer) engine \<Rightarrow> (string \<rightharpoonup> bool) \<Rightarrow> (py_exception + string) list
     \<Rightarrow> control \<times> 'bot option \<times> event list" where
  "handle E options inps =
     (case build_chatbot E (get_read_only options) of
        Inl exc \<Rightarrow> (RAISED exc, None, [])
      | Inr chatbot \<Rightarrow>
          (case train_if_needed E chatbot [] of
             (Inl exc, chatbot', tr) \<Rightarrow> (RAISED exc, Some chatbot', tr)
           | (Inr u, chatbot', tr) \<Rightarrow>
               (case chat_loop E inps chatbot' tr of
                  (c, chatbot'', tr') \<Rightarrow> (c, Some chatbot'', tr'))))"

section \<open>Example engines\<close>

text \<open>
  Concrete engines on which the theorems below are evaluated. The agent's state is the
  number of \<open>get_response\<close> calls it has served.
\<close>

definition value_error :: py_exception where
  "value_error = PyException (OtherException ''ValueError'') (Inr ''no such corpus'')"

definition keyboard_interrupt :: py_exception where
  "keyboard_interrupt = PyException KeyboardInterrupt (Inr [])"

text \<open>What \<^verbatim>\<open>sys.exit()\<close> inside the agent raises.\<close>

definition system_exit :: py_exception where
  "system_exit = PyException SystemExit (Inr [])"

text \<open>An instance of \<^verbatim>\<open>Exception\<close> whose \<^verbatim>\<open>__str__\<close> raises \<^verbatim>\<open>ValueError\<close>.\<close>

definition unprintable_error :: py_exception where
  "unprintable_error = PyException (OtherException ''BrokenError'') (Inl value_error)"

text \<open>Every call returns; the agent answers with the text it was given.\<close>

definition echo_engine :: "(nat, unit) engine" where
  "echo_engine =
     \<lparr> ChatBot = (\<lambda>kw. Inr 0),
       ChatterBotCorpusTrainer = (\<lambda>b. Inr ()),
       train = (\<lambda>t c b. (Inr (), b)),
       get_response = (\<lambda>b text. (Inr (''You said: '' @ text), Suc b)) \<rparr>"

text \<open>The constructors return; training and every dispatch raise \<open>exc\<close>.\<close>

definition raising_engine :: "py_exception \<Rightarrow> (nat, unit) engine" where
  "raising_engine exc =
     \<lparr> ChatBot = (\<lambda>kw. Inr 0),
       ChatterBotCorpusTrainer = (\<lambda>b. Inr ()),
       train = (\<lambda>t c b. (Inl exc, b)),
       get_response = (\<lambda>b text. (Inl exc, Suc b)) \<rparr>"

text \<open>The \<^verbatim>\<open>ChatBot\<close> constructor itself raises \<open>exc\<close>.\<close>

definition broken_engine :: "py_exception \<Rightarrow> (nat, unit) engine" where
  "broken_engine exc =
     \<lparr> ChatBot = (\<lambda>kw. Inl exc),
       ChatterBotCorpusTrainer = (\<lambda>b. Inr ()),
       train = (\<lambda>t c b. (Inr (), b)),
       get_response = (\<lambda>b text. (Inr (''You said: '' @ text), Suc b)) \<rparr>"

text \<open>
  Every call returns; the agent's state starts as 1 when the constructor was given
  \<^verbatim>\<open>read_only=True\<close> and as 0 otherwise, so a run shows what the constructor saw.
\<close>

definition recording_engine :: "(nat, unit) engine" where
  "recording_engine =
     \<lparr> ChatBot = (\<lambda>kw. Inr (if read_only kw then 1 else 0)),
       ChatterBotCorpusTrainer = (\<lambda>b. Inr ()),
       train = (\<lambda>t c b. (Inr (), b)),
       get_response = (\<lambda>b text. (Inr (''You said: '' @ text), b)) \<rparr>"

section \<open>Facts about \<open>strip\<close> and \<open>lower\<close>\<close>

lemma dropWhile_none: "\<forall>x\<in>set s. \<not> P x \<Longrightarrow> dropWhile P s = s"
  by (cases s) simp_all

lemma strip_all_space:
  assumes "list_all py_isspace s"
  shows "strip s = []"
proof -
  from assms have h: "dropWhile py_isspace s = []"
    by (simp add: list_all_iff)
  show ?thesis
    by (simp only: strip_def h rev.simps dropWhile.simps)
qed

lemma strip_no_space: "\<not> list_ex py_isspace s \<Longrightarrow> strip s = s"
  by (simp add: strip_def list_ex_iff dropWhile_none)

lemma strip_ends:
  assumes "strip s \<noteq> []"
  shows "\<not> py_isspace (hd (strip s))" and "\<not> py_isspace (last (strip s))"
proof -
  define d where "d = dropWhile py_isspace s"
  define e where "e = dropWhile py_isspace (rev d)"
  have s: "strip s = rev e"
    by (simp add: strip_def d_def e_def)
  with assms have e: "e \<noteq> []" by simp
  then have d: "d \<noteq> []" by (auto simp: e_def)
  from e have he: "\<not> py_isspace (hd e)"
    unfolding e_def by (rule hd_dropWhile)
  from d have hd: "\<not> py_isspace (hd d)"
    unfolding d_def by (rule hd_dropWhile)
  from e show "\<not> py_isspace (last (strip s))"
    using he by (simp add: s last_rev)
  have "hd d \<in> set (rev d)"
    using d by simp
  then have "last e = last (rev d)"
    unfolding e_def using hd by (rule dropWhile_last)
  then show "\<not> py_isspace (hd (strip s))"
    using e d hd by (simp add: s hd_rev last_rev)
qed


lemma strip_empty_iff: "strip s = [] \<longleftrightarrow> list_all py_isspace s"
proof
  assume "strip s = []"
  then have "dropWhile py_isspace (rev (dropWhile py_isspace s)) = []"
    by (simp only: strip_def rev_is_Nil_conv)
  then have all: "\<forall>x\<in>set (dropWhile py_isspace s). py_isspace x"
    by (simp only: dropWhile_eq_Nil_conv set_rev)
  have "dropWhile py_isspace s = []"
  proof (rule ccontr)
    assume ne: "dropWhile py_isspace s \<noteq> []"
    then have "\<not> py_isspace (hd (dropWhile py_isspace s))" by (rule hd_dropWhile)
    moreover from ne have "hd (dropWhile py_isspace s) \<in> set (dropWhile py_isspace s)"
      by simp
    ultimately show False using all by blast
  qed
  then show "list_all py_isspace s"
    by (simp add: list_all_iff)
next
  assume "list_all py_isspace s"
  then show "strip s = []" by (rule strip_all_space)
qed

lemma strip_fixed:
  assumes "t \<noteq> []" and "\<not> py_isspace (hd t)" and "\<not> py_isspace (last t)"
  shows "strip t = t"
proof -
  from assms(1,2) have 1: "dropWhile py_isspace t = t"
    by (cases t) simp_all
  from assms(1,3) have 2: "dropWhile py_isspace (rev t) = rev t"
    by (cases "rev t") (simp_all add: hd_rev [symmetric])
  show ?thesis
    by (simp only: strip_def 1 2 rev_rev_ident)
qed

lemma strip_idem: "strip (strip s) = strip s"
proof (cases "strip s = []")
  case True
  have "strip [] = []" by (simp add: strip_def)
  with True show ?thesis by simp
next
  case False
  then show ?thesis
    by (intro strip_fixed strip_ends)
qed

lemma space_lower: "py_isspace c \<Longrightarrow> lower_char c = c"
  by (auto simp add: py_isspace_def lower_char_def Let_def)

lemma not_space_sentinel_chars:
  "c \<in> set ''exitquit'' \<Longrightarrow> \<not> py_isspace c"
  by (auto simp add: py_isspace_def)

lemma lower_sentinel_no_space:
  assumes "lower s \<in> sentinels"
  shows "\<not> list_ex py_isspace s"
proof
  assume "list_ex py_isspace s"
  then obtain c where c: "c \<in> set s" "py_isspace c"
    by (auto simp: list_ex_iff)
  then have "lower_char c \<in> set (lower s)"
    by (simp add: lower_def)
  with c have "c \<in> set (lower s)"
    by (simp add: space_lower)
  moreover from assms have "set (lower s) \<subseteq> set ''exitquit''"
    by (auto simp: sentinels_def)
  ultimately have "c \<in> set ''exitquit''" by blast
  with c show False
    using not_space_sentinel_chars by blast
qed

lemma lower_sentinel_strip: "lower s \<in> sentinels \<Longrightarrow> strip s = s"
  by (intro strip_no_space lower_sentinel_no_space)

lemma dispatched_append: "dispatched (xs @ ys) = dispatched xs @ dispatched ys"
  by (induction xs rule: dispatched.induct) simp_all

section \<open>The interactive loop\<close>

text \<open>
  C1, as the code has it. Take an input line that is dispatched (not blank and not a
  sentinel once stripped) and on which \<^verbatim>\<open>chatbot.get_response\<close> raises \<open>exc\<close>.
  If \<open>exc\<close> is an instance of \<^verbatim>\<open>Exception\<close> and \<^verbatim>\<open>str(exc)\<close> returns a text, the
  iteration prints \<^verbatim>\<open>Bot: Sorry, I ran into a problem: \<close> followed by that text and
  control is back at \<^verbatim>\<open>input\<close>: the loop goes on with the next input, and nothing
  leaves it. If \<open>exc\<close> is not an instance of \<^verbatim>\<open>Exception\<close> (it derives from
  \<^verbatim>\<open>BaseException\<close> only), the handler does not catch it: it leaves the loop, nothing
  is printed and no further input is read.
\<close>

theorem dispatch_Exception_is_contained:
  assumes "lower (strip line) \<notin> sentinels" and "strip line \<noteq> []"
    and "get_response E chatbot (strip line) = (Inl exc, chatbot')"
  shows "(is_Exception (exc_class exc) \<and> exc_str exc = Inr text \<longrightarrow>
            chat_turn E (Inr line) (chatbot, tr) =
              (WAITING_FOR_INPUT, chatbot',
               tr @ [Prompt ''You: '', GetResponse (strip line),
                     py_print (''Bot: Sorry, I ran into a problem: '' @ text)])
            \<and> chat_loop_from E (Inr line # inps) (chatbot, tr) =
                chat_loop_from E inps
                  (chatbot',
                   tr @ [Prompt ''You: '', GetResponse (strip line),
                         py_print (''Bot: Sorry, I ran into a problem: '' @ text)]))
         \<and> (\<not> is_Exception (exc_class exc) \<longrightarrow>
            chat_turn E (Inr line) (chatbot, tr) =
              (RAISED exc, chatbot', tr @ [Prompt ''You: '', GetResponse (strip line)])
            \<and> chat_loop_from E (Inr line # inps) (chatbot, tr) =
                (RAISED exc, chatbot', tr @ [Prompt ''You: '', GetResponse (strip line)]))"
  using assms by simp

theorem dispatch_Exception_is_contained_witness:
  "lower (strip ''hello'') \<notin> sentinels \<and> strip ''hello'' \<noteq> []
   \<and> get_response (raising_engine value_error) 0 (strip ''hello'') = (Inl value_error, Suc 0)
   \<and> is_Exception (exc_class value_error) \<and> exc_str value_error = Inr ''no such corpus''
   \<and> chat_turn (raising_engine value_error) (Inr ''hello'') (0, []) =
        (WAITING_FOR_INPUT, Suc 0,
         [Prompt ''You: '', GetResponse ''hello'',
          py_print ''Bot: Sorry, I ran into a problem: no such corpus''])
   \<and> chat_loop_from (raising_engine value_error) [Inr ''hello'', Inr ''quit''] (0, []) =
        (TERMINATED, Suc 0,
         [Prompt ''You: '', GetResponse ''hello'',
          py_print ''Bot: Sorry, I ran into a problem: no such corpus'',
          Prompt ''You: '', py_print ''Bot: Goodbye!''])
   \<and> get_response (raising_engine system_exit) 0 (strip ''hello'') = (Inl system_exit, Suc 0)
   \<and> \<not> is_Exception (exc_class system_exit)
   \<and> chat_loop_from (raising_engine system_exit) [Inr ''hello'', Inr ''quit''] (0, []) =
        (RAISED system_exit, Suc 0, [Prompt ''You: '', GetResponse ''hello''])"
proof -
  have s: "strip ''hello'' = ''hello''" by code_simp
  have 1: "lower (strip ''hello'') \<notin> sentinels" by code_simp
  have 2: "strip ''hello'' \<noteq> []" by code_simp
  have 3: "get_response (raising_engine value_error) 0 (strip ''hello'') = (Inl value_error, Suc 0)"
    by (simp add: raising_engine_def)
  have 4: "is_Exception (exc_class value_error)"
    by (simp add: value_error_def)
  have 5: "exc_str value_error = Inr ''no such corpus''"
    by (simp add: value_error_def)
  have 6: "get_response (raising_engine system_exit) 0 (strip ''hello'') = (Inl system_exit, Suc 0)"
    by (simp add: raising_engine_def)
  have 7: "\<not> is_Exception (exc_class system_exit)"
    by (simp add: system_exit_def)
  have "lower (strip ''quit'') \<in> sentinels" by code_simp
  then have q: "chat_loop_from (raising_engine value_error) [Inr ''quit''] (Suc 0, tr) =
        (TERMINATED, Suc 0, tr @ [Prompt ''You: '', py_print ''Bot: Goodbye!''])" for tr
    by simp
  from dispatch_Exception_is_contained [OF 1 2 3, of "''no such corpus''" "[]" "[Inr ''quit'']"] 4 5
  have a: "chat_turn (raising_engine value_error) (Inr ''hello'') (0, []) =
        (WAITING_FOR_INPUT, Suc 0,
         [Prompt ''You: '', GetResponse ''hello'',
          py_print ''Bot: Sorry, I ran into a problem: no such corpus''])"
    and b: "chat_loop_from (raising_engine value_error) [Inr ''hello'', Inr ''quit''] (0, []) =
        (TERMINATED, Suc 0,
         [Prompt ''You: '', GetResponse ''hello'',
          py_print ''Bot: Sorry, I ran into a problem: no such corpus'',
          Prompt ''You: '', py_print ''Bot: Goodbye!''])"
    by (simp_all only: s q) simp_all
  from dispatch_Exception_is_contained [OF 1 2 6, of "[]" "[]" "[Inr ''quit'']"] 7
  have c: "chat_loop_from (raising_engine system_exit) [Inr ''hello'', Inr ''quit''] (0, []) =
        (RAISED system_exit, Suc 0, [Prompt ''You: '', GetResponse ''hello''])"
    by (simp only: s) simp
  from 1 2 3 4 5 6 7 a b c show ?thesis by blast
qed

text \<open>
  C1 as the spec words it ("any exception the dispatch call can raise") fails:
  \<^verbatim>\<open>except Exception\<close> does not catch a \<^verbatim>\<open>KeyboardInterrupt\<close> raised while
  \<^verbatim>\<open>get_response\<close> runs. The exception leaves the loop, no diagnostic is printed, and
  the next input (\<^verbatim>\<open>quit\<close>) is never read.
\<close>

theorem dispatch_KeyboardInterrupt_escapes:
  "chat_loop_from (raising_engine keyboard_interrupt) [Inr ''hello'', Inr ''quit''] (0, []) =
     (RAISED keyboard_interrupt, Suc 0, [Prompt ''You: '', GetResponse ''hello''])"
  by code_simp

text \<open>
  The handler's own f-string is a second way out of the loop: when the dispatch raises
  an instance of \<^verbatim>\<open>Exception\<close> whose \<^verbatim>\<open>__str__\<close> raises, that second exception
  leaves the loop from inside the handler.
\<close>

lemma unprintable_dispatch_error_escapes:
  "chat_loop_from (raising_engine unprintable_error) [Inr ''hello'', Inr ''quit''] (0, []) =
     (RAISED value_error, Suc 0, [Prompt ''You: '', GetResponse ''hello''])"
  by code_simp

text \<open>
  C2. An input line equal to \<^verbatim>\<open>exit\<close> or \<^verbatim>\<open>quit\<close> up to case (\<^verbatim>\<open>EXIT\<close>, \<^verbatim>\<open>Quit\<close>,
  ...) ends the loop: it prints \<^verbatim>\<open>Bot: Goodbye!\<close> and breaks, whatever input would
  follow; the agent is not called (no \<open>GetResponse\<close> is added to the trace and the
  agent's state is the one before).
\<close>

theorem sentinel_terminates_without_dispatch:
  assumes "lower line \<in> sentinels"
  shows "chat_loop_from E (Inr line # inps) (chatbot, tr) =
           (TERMINATED, chatbot, tr @ [Prompt ''You: '', py_print ''Bot: Goodbye!''])
         \<and> dispatched (snd (snd (chat_loop_from E (Inr line # inps) (chatbot, tr))))
             = dispatched tr"
proof -
  from assms have "strip line = line" by (rule lower_sentinel_strip)
  with assms show ?thesis
    by (simp add: dispatched_append py_print_def)
qed

theorem sentinel_terminates_without_dispatch_witness:
  "lower ''Quit'' \<in> sentinels
   \<and> chat_loop_from echo_engine [Inr ''Quit'', Inr ''hello''] (0, []) =
       (TERMINATED, 0, [Prompt ''You: '', py_print ''Bot: Goodbye!''])
   \<and> dispatched (snd (snd (chat_loop_from echo_engine [Inr ''Quit'', Inr ''hello''] (0, []))))
       = []"
proof -
  have h: "lower ''Quit'' \<in> sentinels" by code_simp
  from sentinel_terminates_without_dispatch [OF h, of echo_engine "[Inr ''hello'']" 0 "[]"] h
  show ?thesis by (auto simp del: chat_loop_from.simps chat_turn.simps)
qed

text \<open>
  C4. An empty or whitespace-only input line is a no-op: the agent is not called, its
  state and the dispatch log are unchanged, only the prompt was shown, and the loop
  goes on with the next input from \<open>WAITING_FOR_INPUT\<close>.
\<close>

theorem blank_line_is_skipped:
  assumes "list_all py_isspace line"
  shows "chat_turn E (Inr line) (chatbot, tr) =
           (WAITING_FOR_INPUT, chatbot, tr @ [Prompt ''You: ''])
         \<and> chat_loop_from E (Inr line # inps) (chatbot, tr) =
             chat_loop_from E inps (chatbot, tr @ [Prompt ''You: ''])
         \<and> dispatched (snd (snd (chat_turn E (Inr line) (chatbot, tr)))) = dispatched tr"
proof -
  from assms have "strip line = []" by (rule strip_all_space)
  then show ?thesis
    by (simp add: dispatched_append lower_def sentinels_def)
qed

theorem blank_line_is_skipped_witness:
  "list_all py_isspace [CHR '' '', CHR 0x09, CHR '' '']
   \<and> chat_turn echo_engine (Inr [CHR '' '', CHR 0x09, CHR '' '']) (0, []) =
        (WAITING_FOR_INPUT, 0, [Prompt ''You: ''])
   \<and> chat_loop_from echo_engine [Inr [CHR '' '', CHR 0x09, CHR '' '']] (0, []) =
        (WAITING_FOR_INPUT, 0, [Prompt ''You: ''])
   \<and> dispatched (snd (snd (chat_turn echo_engine (Inr [CHR '' '', CHR 0x09, CHR '' '']) (0, []))))
       = []"
proof -
  have h: "list_all py_isspace [CHR '' '', CHR 0x09, CHR '' '']"
    by (simp add: py_isspace_def)
  from blank_line_is_skipped [OF h, of echo_engine 0 "[]" "[]"] h
  show ?thesis by (auto simp del: chat_loop_from.simps(2) chat_turn.simps)
qed

text \<open>
  C5. When \<^verbatim>\<open>input\<close> raises \<^verbatim>\<open>EOFError\<close> (end of input) or \<^verbatim>\<open>KeyboardInterrupt\<close>
  (Ctrl+C), the loop ends there, whatever input would follow: after the prompt it
  writes exactly one newline character, and it returns normally (\<open>TERMINATED\<close>, not
  \<open>RAISED\<close>).
\<close>

theorem eof_or_interrupt_terminates:
  assumes "exc_class exc = EOFError \<or> exc_class exc = KeyboardInterrupt"
  shows "chat_loop_from E (Inl exc # inps) (chatbot, tr) =
           (TERMINATED, chatbot, tr @ [Prompt ''You: '', Stdout [CHR 0x0A]])"
  using assms by (auto simp add: py_print_def)

theorem eof_or_interrupt_terminates_witness:
  "(exc_class keyboard_interrupt = EOFError \<or> exc_class keyboard_interrupt = KeyboardInterrupt)
   \<and> chat_loop_from echo_engine [Inl keyboard_interrupt, Inr ''hello''] (0, []) =
       (TERMINATED, 0, [Prompt ''You: '', Stdout [CHR 0x0A]])"
  using eof_or_interrupt_terminates [of keyboard_interrupt echo_engine "[Inr ''hello'']" 0 "[]"]
  by (simp add: keyboard_interrupt_def)



lemma quit_ends:
  "chat_loop_from E [Inr ''quit''] (chatbot, tr) =
     (TERMINATED, chatbot, tr @ [Prompt ''You: '', py_print ''Bot: Goodbye!''])"
proof -
  have "lower (strip ''quit'') \<in> sentinels" by code_simp
  then show ?thesis by simp
qed

text \<open>
  C6, as the code has it. For the inputs \<^verbatim>\<open>hello\<close>, the empty line and \<^verbatim>\<open>quit\<close>, when
  the dispatch of \<^verbatim>\<open>hello\<close> returns a response, or raises an instance of
  \<^verbatim>\<open>Exception\<close> whose \<^verbatim>\<open>str\<close> returns a text: the loop calls the agent once, with
  \<^verbatim>\<open>hello\<close>; prints the answer or the diagnostic; shows the prompt for the blank line
  and does nothing else for it; and ends after \<^verbatim>\<open>quit\<close> with \<^verbatim>\<open>Bot: Goodbye!\<close>,
  returning normally.
\<close>

theorem scenario_hello_blank_quit:
  assumes "get_response E chatbot ''hello'' = (r, chatbot')"
  shows "(r = Inr response \<longrightarrow>
            chat_loop_from E [Inr ''hello'', Inr [], Inr ''quit''] (chatbot, tr) =
              (TERMINATED, chatbot',
               tr @ [Prompt ''You: '', GetResponse ''hello'', py_print (''Bot: '' @ response),
                     Prompt ''You: '',
                     Prompt ''You: '', py_print ''Bot: Goodbye!''])
            \<and> dispatched (snd (snd (chat_loop_from E [Inr ''hello'', Inr [], Inr ''quit'']
                                       (chatbot, tr))))
                = dispatched tr @ [''hello''])
         \<and> (r = Inl exc \<and> is_Exception (exc_class exc) \<and> exc_str exc = Inr text \<longrightarrow>
            chat_loop_from E [Inr ''hello'', Inr [], Inr ''quit''] (chatbot, tr) =
              (TERMINATED, chatbot',
               tr @ [Prompt ''You: '', GetResponse ''hello'',
                     py_print (''Bot: Sorry, I ran into a problem: '' @ text),
                     Prompt ''You: '',
                     Prompt ''You: '', py_print ''Bot: Goodbye!''])
            \<and> dispatched (snd (snd (chat_loop_from E [Inr ''hello'', Inr [], Inr ''quit'']
                                       (chatbot, tr))))
                = dispatched tr @ [''hello''])"
proof -
  have 1: "strip ''hello'' = ''hello''" by code_simp
  have 2: "lower ''hello'' \<notin> sentinels" by code_simp
  have 3: "strip [] = []" by code_simp
  have 4: "lower [] \<notin> sentinels" by code_simp
  have 5: "strip ''quit'' = ''quit''" by code_simp
  have 6: "lower ''quit'' \<in> sentinels" by code_simp
  from assms show ?thesis
    by (simp add: 1 2 3 4 5 6 dispatched_append py_print_def)
qed

theorem scenario_hello_blank_quit_witness:
  "get_response echo_engine 0 ''hello'' = (Inr ''You said: hello'', Suc 0)
   \<and> chat_loop_from echo_engine [Inr ''hello'', Inr [], Inr ''quit''] (0, []) =
       (TERMINATED, Suc 0,
        [Prompt ''You: '', GetResponse ''hello'', py_print ''Bot: You said: hello'',
         Prompt ''You: '',
         Prompt ''You: '', py_print ''Bot: Goodbye!''])
   \<and> dispatched (snd (snd (chat_loop_from echo_engine [Inr ''hello'', Inr [], Inr ''quit'']
                              (0, []))))
       = [''hello'']
   \<and> get_response (raising_engine value_error) 0 ''hello'' = (Inl value_error, Suc 0)
   \<and> is_Exception (exc_class value_error) \<and> exc_str value_error = Inr ''no such corpus''
   \<and> chat_loop_from (raising_engine value_error) [Inr ''hello'', Inr [], Inr ''quit''] (0, []) =
       (TERMINATED, Suc 0,
        [Prompt ''You: '', GetResponse ''hello'',
         py_print ''Bot: Sorry, I ran into a problem: no such corpus'',
         Prompt ''You: '',
         Prompt ''You: '', py_print ''Bot: Goodbye!''])
   \<and> dispatched (snd (snd (chat_loop_from (raising_engine value_error)
                              [Inr ''hello'', Inr [], Inr ''quit''] (0, []))))
       = [''hello'']"
proof -
  have 1: "get_response echo_engine 0 ''hello'' = (Inr ''You said: hello'', Suc 0)"
    by (simp add: echo_engine_def)
  have 2: "get_response (raising_engine value_error) 0 ''hello'' = (Inl value_error, Suc 0)"
    by (simp add: raising_engine_def)
  have 3: "is_Exception (exc_class value_error)"
    by (simp add: value_error_def)
  have 4: "exc_str value_error = Inr ''no such corpus''"
    by (simp add: value_error_def)
  from scenario_hello_blank_quit [OF 1, of "''You said: hello''" "[]"]
  have a: "chat_loop_from echo_engine [Inr ''hello'', Inr [], Inr ''quit''] (0, []) =
       (TERMINATED, Suc 0,
        [Prompt ''You: '', GetResponse ''hello'', py_print ''Bot: You said: hello'',
         Prompt ''You: '',
         Prompt ''You: '', py_print ''Bot: Goodbye!''])
   \<and> dispatched (snd (snd (chat_loop_from echo_engine [Inr ''hello'', Inr [], Inr ''quit'']
                              (0, []))))
       = [''hello'']"
    by (auto simp del: chat_loop_from.simps chat_turn.simps)
  from scenario_hello_blank_quit [OF 2, of _ "[]" value_error "''no such corpus''"] 3 4
  have b: "chat_loop_from (raising_engine value_error) [Inr ''hello'', Inr [], Inr ''quit''] (0, []) =
       (TERMINATED, Suc 0,
        [Prompt ''You: '', GetResponse ''hello'',
         py_print ''Bot: Sorry, I ran into a problem: no such corpus'',
         Prompt ''You: '',
         Prompt ''You: '', py_print ''Bot: Goodbye!''])
   \<and> dispatched (snd (snd (chat_loop_from (raising_engine value_error)
                              [Inr ''hello'', Inr [], Inr ''quit''] (0, []))))
       = [''hello'']"
    by (auto simp del: chat_loop_from.simps chat_turn.simps)
  from 1 2 3 4 a b show ?thesis by blast
qed

text \<open>
  C6 as the spec words it has no condition on the agent, and fails with the three lines
  as the only input. When the agent's code ends the interpreter inside
  \<^verbatim>\<open>get_response\<close> (\<^verbatim>\<open>sys.exit()\<close>), \<^verbatim>\<open>SystemExit\<close> is not an instance of
  \<^verbatim>\<open>Exception\<close> and leaves the loop; when the agent raises an instance of
  \<^verbatim>\<open>Exception\<close> whose \<^verbatim>\<open>__str__\<close> raises, the handler's f-string raises in turn and
  that exception leaves the loop. Either way the blank line and \<^verbatim>\<open>quit\<close> are never
  read.
\<close>

theorem scenario_dispatch_exception_escapes:
  "chat_loop_from (raising_engine system_exit) [Inr ''hello'', Inr [], Inr ''quit''] (0, []) =
     (RAISED system_exit, Suc 0, [Prompt ''You: '', GetResponse ''hello''])
   \<and> chat_loop_from (raising_engine unprintable_error) [Inr ''hello'', Inr [], Inr ''quit'']
       (0, []) =
     (RAISED value_error, Suc 0, [Prompt ''You: '', GetResponse ''hello''])"
  by code_simp

section \<open>Training\<close>

text \<open>
  C3, as the code has it. Take a run in which the agent and the trainer are built and
  \<^verbatim>\<open>trainer.train\<close> raises \<open>exc\<close>. If \<open>exc\<close> is an instance of \<^verbatim>\<open>Exception\<close> and
  \<^verbatim>\<open>str(exc)\<close> returns a text, \<^verbatim>\<open>_train_if_needed\<close> catches it, writes two warnings
  (the first with that text) and returns; \<open>handle\<close> then runs the interactive loop on
  the agent as training left it. If \<open>exc\<close> is not an instance of \<^verbatim>\<open>Exception\<close>, it is
  not caught: it leaves \<^verbatim>\<open>_train_if_needed\<close> and \<open>handle\<close>, no warning is written and the
  loop is not entered.
\<close>

theorem training_Exception_is_contained:
  assumes "build_chatbot E (get_read_only options) = Inr chatbot"
    and "ChatterBotCorpusTrainer E chatbot = Inr trainer"
    and "train E trainer corpus chatbot = (Inl exc, chatbot')"
  shows "(is_Exception (exc_class exc) \<and> exc_str exc = Inr text \<longrightarrow>
            train_if_needed E chatbot [] =
              (Inr (), chatbot',
               [StdoutWrite NOTICE
                  ''Preparing and training the bot (first run may take a while)...'',
                Train corpus,
                StdoutWrite WARNING (''Training warning: '' @ text),
                StdoutWrite WARNING ''Continuing; the bot may have limited knowledge this run.''])
            \<and> handle E options inps =
                (case chat_loop E inps chatbot'
                        [StdoutWrite NOTICE
                           ''Preparing and training the bot (first run may take a while)...'',
                         Train corpus,
                         StdoutWrite WARNING (''Training warning: '' @ text),
                         StdoutWrite WARNING
                           ''Continuing; the bot may have limited knowledge this run.''] of
                   (c, chatbot'', tr) \<Rightarrow> (c, Some chatbot'', tr)))
         \<and> (\<not> is_Exception (exc_class exc) \<longrightarrow>
            train_if_needed E chatbot [] =
              (Inl exc, chatbot',
               [StdoutWrite NOTICE
                  ''Preparing and training the bot (first run may take a while)...'',
                Train corpus])
            \<and> handle E options inps =
                (RAISED exc, Some chatbot',
                 [StdoutWrite NOTICE
                    ''Preparing and training the bot (first run may take a while)...'',
                  Train corpus]))"
  using assms by (simp add: handle_def train_if_needed_def)

theorem training_Exception_is_contained_witness:
  "build_chatbot (raising_engine value_error) (get_read_only Map.empty) = Inr 0
   \<and> ChatterBotCorpusTrainer (raising_engine value_error) 0 = Inr ()
   \<and> train (raising_engine value_error) () corpus 0 = (Inl value_error, 0)
   \<and> is_Exception (exc_class value_error) \<and> exc_str value_error = Inr ''no such corpus''
   \<and> train_if_needed (raising_engine value_error) 0 [] =
           (Inr (), 0,
            [StdoutWrite NOTICE ''Preparing and training the bot (first run may take a while)...'',
             Train corpus,
             StdoutWrite WARNING ''Training warning: no such corpus'',
             StdoutWrite WARNING ''Continuing; the bot may have limited knowledge this run.''])
   \<and> handle (raising_engine value_error) Map.empty [Inr ''quit''] =
           (TERMINATED, Some 0,
            [StdoutWrite NOTICE ''Preparing and training the bot (first run may take a while)...'',
             Train corpus,
             StdoutWrite WARNING ''Training warning: no such corpus'',
             StdoutWrite WARNING ''Continuing; the bot may have limited knowledge this run.'',
             StdoutWrite SUCCESS
               (''Bot is ready. Type your message, or type '' @ [CHR 0x22]
                @ ''exit'' @ [CHR 0x22] @ '' to quit.''),
             Prompt ''You: '', py_print ''Bot: Goodbye!''])
   \<and> build_chatbot (raising_engine system_exit) (get_read_only Map.empty) = Inr 0
   \<and> ChatterBotCorpusTrainer (raising_engine system_exit) 0 = Inr ()
   \<and> train (raising_engine system_exit) () corpus 0 = (Inl system_exit, 0)
   \<and> \<not> is_Exception (exc_class system_exit)
   \<and> handle (raising_engine system_exit) Map.empty [Inr ''quit''] =
           (RAISED system_exit, Some 0,
            [StdoutWrite NOTICE ''Preparing and training the bot (first run may take a while)...'',
             Train corpus])"
proof -
  have 1: "build_chatbot (raising_engine value_error) (get_read_only Map.empty) = Inr 0"
    by (simp add: build_chatbot_def raising_engine_def)
  have 2: "ChatterBotCorpusTrainer (raising_engine value_error) 0 = Inr ()"
    by (simp add: raising_engine_def)
  have 3: "train (raising_engine value_error) () corpus 0 = (Inl value_error, 0)"
    by (simp add: raising_engine_def)
  have 4: "is_Exception (exc_class value_error)"
    by (simp add: value_error_def)
  have 5: "exc_str value_error = Inr ''no such corpus''"
    by (simp add: value_error_def)
  have 6: "build_chatbot (raising_engine system_exit) (get_read_only Map.empty) = Inr 0"
    by (simp add: build_chatbot_def raising_engine_def)
  have 7: "ChatterBotCorpusTrainer (raising_engine system_exit) 0 = Inr ()"
    by (simp add: raising_engine_def)
  have 8: "train (raising_engine system_exit) () corpus 0 = (Inl system_exit, 0)"
    by (simp add: raising_engine_def)
  have 9: "\<not> is_Exception (exc_class system_exit)"
    by (simp add: system_exit_def)
  from training_Exception_is_contained [OF 1 2 3, of "''no such corpus''" "[Inr ''quit'']"] 4 5
  have a: "train_if_needed (raising_engine value_error) 0 [] =
           (Inr (), 0,
            [StdoutWrite NOTICE ''Preparing and training the bot (first run may take a while)...'',
             Train corpus,
             StdoutWrite WARNING ''Training warning: no such corpus'',
             StdoutWrite WARNING ''Continuing; the bot may have limited knowledge this run.''])"
    and b: "handle (raising_engine value_error) Map.empty [Inr ''quit''] =
           (TERMINATED, Some 0,
            [StdoutWrite NOTICE ''Preparing and training the bot (first run may take a while)...'',
             Train corpus,
             StdoutWrite WARNING ''Training warning: no such corpus'',
             StdoutWrite WARNING ''Continuing; the bot may have limited knowledge this run.'',
             StdoutWrite SUCCESS
               (''Bot is ready. Type your message, or type '' @ [CHR 0x22]
                @ ''exit'' @ [CHR 0x22] @ '' to quit.''),
             Prompt ''You: '', py_print ''Bot: Goodbye!''])"
    by (simp_all only: chat_loop_def quit_ends) simp_all
  from training_Exception_is_contained [OF 6 7 8, of "[]" "[Inr ''quit'']"] 9
  have c: "handle (raising_engine system_exit) Map.empty [Inr ''quit''] =
           (RAISED system_exit, Some 0,
            [StdoutWrite NOTICE ''Preparing and training the bot (first run may take a while)...'',
             Train corpus])"
    by blast
  from 1 2 3 4 5 6 7 8 9 a b c show ?thesis by blast
qed

text \<open>
  C3 as the spec words it ("every exception raised by the training call") fails:
  \<^verbatim>\<open>except Exception\<close> lets a \<^verbatim>\<open>KeyboardInterrupt\<close> raised while training runs through.
  It leaves \<open>handle\<close>; no warning is written and the loop is not entered, although
  \<^verbatim>\<open>quit\<close> is waiting on the input.
\<close>

theorem training_KeyboardInterrupt_escapes:
  "handle (raising_engine keyboard_interrupt) Map.empty [Inr ''quit''] =
     (RAISED keyboard_interrupt, Some 0,
      [StdoutWrite NOTICE ''Preparing and training the bot (first run may take a while)...'',
       Train corpus])"
  by (simp add: handle_def train_if_needed_def build_chatbot_def get_read_only_def
      raising_engine_def keyboard_interrupt_def)

text \<open>
  The handler's own f-string is a second way out: when training raises an instance of
  \<^verbatim>\<open>Exception\<close> whose \<^verbatim>\<open>__str__\<close> raises, that second exception leaves
  \<^verbatim>\<open>_train_if_needed\<close> from inside the handler, before any warning is written.
\<close>

lemma unprintable_training_error_escapes:
  "handle (raising_engine unprintable_error) Map.empty [Inr ''quit''] =
     (RAISED value_error, Some 0,
      [StdoutWrite NOTICE ''Preparing and training the bot (first run may take a while)...'',
       Train corpus])"
  by (simp add: handle_def train_if_needed_def build_chatbot_def get_read_only_def
      raising_engine_def unprintable_error_def value_error_def)

section \<open>Construction\<close>

text \<open>
  C7. An exception raised by the \<^verbatim>\<open>ChatBot\<close> constructor, of whatever class, leaves
  \<^verbatim>\<open>_build_chatbot\<close> and then \<open>handle\<close>: the command has no handler around the call.
  Nothing was written, no trainer was made and the loop was not entered (the trace is
  empty).
\<close>

theorem construction_failure_propagates:
  assumes "ChatBot E (chatbot_kwargs (get_read_only options)) = Inl exc"
  shows "build_chatbot E (get_read_only options) = Inl exc
         \<and> handle E options inps = (RAISED exc, None, [])"
  using assms by (simp add: handle_def build_chatbot_def)

theorem construction_failure_propagates_witness:
  "ChatBot (broken_engine keyboard_interrupt) (chatbot_kwargs (get_read_only Map.empty))
     = Inl keyboard_interrupt
   \<and> build_chatbot (broken_engine keyboard_interrupt) (get_read_only Map.empty)
       = Inl keyboard_interrupt
   \<and> handle (broken_engine keyboard_interrupt) Map.empty [Inr ''hello'', Inr ''quit'']
       = (RAISED keyboard_interrupt, None, [])"
proof -
  have h: "ChatBot (broken_engine keyboard_interrupt) (chatbot_kwargs (get_read_only Map.empty))
     = Inl keyboard_interrupt"
    by (simp add: broken_engine_def)
  from construction_failure_propagates [OF h, of "[Inr ''hello'', Inr ''quit'']"] h
  show ?thesis by blast
qed
text \<open>
  C8. For both values of the read-only flag the keyword arguments are a plain value
  (building it cannot fail): the SQL storage adapter on the fixed local file
  \<^verbatim>\<open>sqlite:///chatterbot.sqlite3\<close>; exactly one logic adapter, \<^verbatim>\<open>BestMatch\<close>, with the
  fallback response and the similarity threshold 0.80, which lies between 0 and 1; the
  one preprocessor \<^verbatim>\<open>clean_whitespace\<close>; and \<^verbatim>\<open>read_only\<close> equal to the flag. These are
  the arguments \<^verbatim>\<open>_build_chatbot\<close> passes to the constructor.
\<close>

theorem configuration_is_fixed:
  "storage_adapter (chatbot_kwargs ro) = ''chatterbot.storage.SQLStorageAdapter''
   \<and> database_uri (chatbot_kwargs ro) = ''sqlite:///chatterbot.sqlite3''
   \<and> (\<exists>a. logic_adapters (chatbot_kwargs ro) = [a]
          \<and> import_path a = ''chatterbot.logic.BestMatch''
          \<and> default_response a = ''I'' @ [CHR 0x27] @ ''m not sure I understand. Can you rephrase?''
          \<and> maximum_similarity_threshold a = 8 / 10
          \<and> 0 \<le> maximum_similarity_threshold a \<and> maximum_similarity_threshold a \<le> 1)
   \<and> preprocessors (chatbot_kwargs ro) = [''chatterbot.preprocessors.clean_whitespace'']
   \<and> read_only (chatbot_kwargs ro) = ro
   \<and> build_chatbot E ro = ChatBot E (chatbot_kwargs ro)"
  by (simp add: chatbot_kwargs_def build_chatbot_def)

text \<open>
  C10. The flag reaches the program as \<^verbatim>\<open>options.get('read_only', False)\<close>: false when
  the key is absent, else its value. \<open>handle\<close> passes it on: the constructor is called
  with the fixed keyword arguments and \<^verbatim>\<open>read_only\<close> set to the flag; what that call
  raises leaves \<open>handle\<close>, and what it returns is the agent that is trained and chatted
  with. Two runs that differ in the flag pass keyword arguments that differ in
  \<^verbatim>\<open>read_only\<close> only; and the flag is used nowhere else: with a constructor that does
  not look at \<^verbatim>\<open>read_only\<close>, the whole run (control, agent, trace) is the same for any
  two option dicts.
\<close>

theorem read_only_flag_frame:
  "chatbot_kwargs ro = (chatbot_kwargs ro') \<lparr> read_only := ro \<rparr>
   \<and> get_read_only (options (''read_only'' := None)) = False
   \<and> get_read_only (options (''read_only'' \<mapsto> ro)) = ro
   \<and> build_chatbot E (get_read_only options)
       = ChatBot E ((chatbot_kwargs False) \<lparr> read_only := get_read_only options \<rparr>)
   \<and> (ChatBot E ((chatbot_kwargs False) \<lparr> read_only := get_read_only options \<rparr>) = Inl exc
        \<longrightarrow> handle E options inps = (RAISED exc, None, []))
   \<and> (ChatBot E ((chatbot_kwargs False) \<lparr> read_only := get_read_only options \<rparr>) = Inr chatbot
        \<longrightarrow> handle E options inps =
              (case train_if_needed E chatbot [] of
                 (Inl exc, chatbot', tr) \<Rightarrow> (RAISED exc, Some chatbot', tr)
               | (Inr u, chatbot', tr) \<Rightarrow>
                   (case chat_loop E inps chatbot' tr of
                      (c, chatbot'', tr') \<Rightarrow> (c, Some chatbot'', tr'))))
   \<and> handle (E \<lparr> ChatBot := \<lambda>kw. ChatBot E (kw \<lparr> read_only := False \<rparr>) \<rparr>) options inps
       = handle (E \<lparr> ChatBot := \<lambda>kw. ChatBot E (kw \<lparr> read_only := False \<rparr>) \<rparr>) options' inps"
proof -
  have kw: "(chatbot_kwargs False) \<lparr> read_only := b \<rparr> = chatbot_kwargs b" for b
    by (simp add: chatbot_kwargs_def)
  show ?thesis
    unfolding kw
    by (simp add: chatbot_kwargs_def handle_def build_chatbot_def get_read_only_def
          train_if_needed_def chat_loop_def)
qed

theorem read_only_flag_frame_witness:
  "ChatBot recording_engine
       ((chatbot_kwargs False) \<lparr> read_only := get_read_only [''read_only'' \<mapsto> True] \<rparr>) = Inr 1
   \<and> handle recording_engine [''read_only'' \<mapsto> True] [Inr ''quit''] =
       (TERMINATED, Some 1,
        [StdoutWrite NOTICE ''Preparing and training the bot (first run may take a while)...'',
         Train corpus,
         StdoutWrite SUCCESS
           (''Bot is ready. Type your message, or type '' @ [CHR 0x22]
            @ ''exit'' @ [CHR 0x22] @ '' to quit.''),
         Prompt ''You: '', py_print ''Bot: Goodbye!''])
   \<and> ChatBot recording_engine
       ((chatbot_kwargs False) \<lparr> read_only := get_read_only Map.empty \<rparr>) = Inr 0
   \<and> handle recording_engine Map.empty [Inr ''quit''] =
       (TERMINATED, Some 0,
        [StdoutWrite NOTICE ''Preparing and training the bot (first run may take a while)...'',
         Train corpus,
         StdoutWrite SUCCESS
           (''Bot is ready. Type your message, or type '' @ [CHR 0x22]
            @ ''exit'' @ [CHR 0x22] @ '' to quit.''),
         Prompt ''You: '', py_print ''Bot: Goodbye!''])
   \<and> ChatBot (broken_engine value_error)
       ((chatbot_kwargs False) \<lparr> read_only := get_read_only [''read_only'' \<mapsto> True] \<rparr>)
       = Inl value_error
   \<and> handle (broken_engine value_error) [''read_only'' \<mapsto> True] [Inr ''quit''] =
       (RAISED value_error, None, [])"
proof -
  have 1: "ChatBot recording_engine
       ((chatbot_kwargs False) \<lparr> read_only := get_read_only [''read_only'' \<mapsto> True] \<rparr>) = Inr 1"
    by (simp add: recording_engine_def get_read_only_def)
  have 2: "ChatBot recording_engine
       ((chatbot_kwargs False) \<lparr> read_only := get_read_only Map.empty \<rparr>) = Inr 0"
    by (simp add: recording_engine_def get_read_only_def chatbot_kwargs_def)
  have 3: "ChatBot (broken_engine value_error)
       ((chatbot_kwargs False) \<lparr> read_only := get_read_only [''read_only'' \<mapsto> True] \<rparr>)
       = Inl value_error"
    by (simp add: broken_engine_def)
  have t: "train_if_needed recording_engine b [] =
        (Inr (), b,
         [StdoutWrite NOTICE ''Preparing and training the bot (first run may take a while)...'',
          Train corpus])" for b
    by (simp add: train_if_needed_def recording_engine_def)
  from read_only_flag_frame
    [where E = recording_engine and chatbot = 1 and inps = "[Inr ''quit'']"
       and options = "[''read_only'' \<mapsto> True]"] 1
  have a: "handle recording_engine [''read_only'' \<mapsto> True] [Inr ''quit''] =
       (TERMINATED, Some 1,
        [StdoutWrite NOTICE ''Preparing and training the bot (first run may take a while)...'',
         Train corpus,
         StdoutWrite SUCCESS
           (''Bot is ready. Type your message, or type '' @ [CHR 0x22]
            @ ''exit'' @ [CHR 0x22] @ '' to quit.''),
         Prompt ''You: '', py_print ''Bot: Goodbye!''])"
    by (simp only: t chat_loop_def quit_ends) simp
  from read_only_flag_frame
    [where E = recording_engine and chatbot = 0 and inps = "[Inr ''quit'']"
       and options = Map.empty] 2
  have b: "handle recording_engine Map.empty [Inr ''quit''] =
       (TERMINATED, Some 0,
        [StdoutWrite NOTICE ''Preparing and training the bot (first run may take a while)...'',
         Train corpus,
         StdoutWrite SUCCESS
           (''Bot is ready. Type your message, or type '' @ [CHR 0x22]
            @ ''exit'' @ [CHR 0x22] @ '' to quit.''),
         Prompt ''You: '', py_print ''Bot: Goodbye!''])"
    by (simp only: t chat_loop_def quit_ends) simp
  from read_only_flag_frame
    [where E = "broken_engine value_error" and exc = value_error and inps = "[Inr ''quit'']"
       and options = "[''read_only'' \<mapsto> True]"] 3
  have c: "handle (broken_engine value_error) [''read_only'' \<mapsto> True] [Inr ''quit''] =
       (RAISED value_error, None, [])"
    by blast
  from 1 2 3 a b c show ?thesis by blast
qed

end
